theory Spec2Isabelle
  imports Complex_Main "HOL-Library.Multiset"
begin

section \<open>Data model (models.py, schemas.py)\<close>

text \<open>
  Python's \<open>Decimal\<close> prices are exact, so they are rationals here. A naive \<open>datetime\<close>
  is a point of a linear order, an integer count of microseconds. Integer primary keys
  are Python ints. The columns \<open>created_at\<close> of users and vehicles are assigned by the
  server and never read by main.py; they are left out. \<open>is_admin\<close> and \<open>is_active\<close> are
  only ever written with \<open>True\<close> or \<open>False\<close>, so they are booleans.
\<close>

type_synonym decimal = rat
type_synonym datetime = int

record user =
  u_id :: int
  username :: string
  email :: string
  password :: string
  is_admin :: bool

record vehicle =
  v_id :: int
  title :: string
  description :: string
  image_url :: "string option"
  starting_price :: decimal
  current_price :: decimal
  auction_end :: datetime
  is_active :: bool
  owner_id :: "int option"

record bid =
  b_id :: int
  amount :: decimal
  user_id :: int
  vehicle_id :: int
  created_at :: datetime

text \<open>\<open>BidCreate\<close>, the request body of \<open>POST /api/bids\<close>.\<close>

record bid_create =
  bc_amount :: decimal
  bc_vehicle_id :: int

text \<open>
  The database session: one list of rows per table, in insertion order.
\<close>

record database =
  users :: "user list"
  vehicles :: "vehicle list"
  bids :: "bid list"

text \<open>
  The storage engine (database.py and the engine behind it) is not part of the source.
  What it contributes is taken as given:
  \<^item> the prices are columns \<open>Numeric(12, 2)\<close>: \<open>keep col x\<close> is what such a column keeps
    of a value \<open>x\<close> written to it, which is what the engine's own comparisons and
    sorts see, and \<open>load col p\<close> is the \<open>Decimal\<close> that Python receives on reading a
    column that keeps \<open>p\<close>. An engine with decimal columns rounds on writing and returns
    what it keeps; an engine that stores such a column as a float keeps the digits
    written, and the value is rounded to two places when it is read back;
  \<^item> the primary key of a new row is the engine's choice, \<open>new_id\<close>; the primary key
    constraint refuses a key that is in use, and then the commit raises
    \<open>IntegrityError\<close> and writes nothing;
  \<^item> the order of rows of equal sort key is the engine's (\<open>tie\<close>, below).
\<close>

record column =
  keep :: "decimal \<Rightarrow> decimal"
  load :: "decimal \<Rightarrow> decimal"

text \<open>A row as Python reads it.\<close>

definition read_bid :: "column \<Rightarrow> bid \<Rightarrow> bid" where
  "read_bid col b = b\<lparr>amount := load col (amount b)\<rparr>"

definition read_vehicle :: "column \<Rightarrow> vehicle \<Rightarrow> vehicle" where
  "read_vehicle col v =
     v\<lparr>starting_price := load col (starting_price v),
       current_price := load col (current_price v)\<rparr>"

definition vehicle_ids :: "database \<Rightarrow> int list" where
  "vehicle_ids d = map v_id (vehicles d)"

definition bid_ids :: "database \<Rightarrow> int list" where
  "bid_ids d = map b_id (bids d)"

definition user_ids :: "database \<Rightarrow> int list" where
  "user_ids d = map u_id (users d)"

section \<open>The connection manager\<close>

type_synonym websocket = nat

datatype message =
    Vehicle_added vehicle
  | Vehicle_removed int
  | Bid_update int decimal string

record connection_manager =
  active :: "websocket list"

text \<open>
  The outcome of \<open>ws.send_json(message)\<close> belongs to the network: \<open>True\<close> when the call
  returns, \<open>False\<close> when it raises an \<open>Exception\<close>.
\<close>

type_synonym send_json = "websocket \<Rightarrow> message \<Rightarrow> bool"

definition connect :: "websocket \<Rightarrow> connection_manager \<Rightarrow> connection_manager" where
  "connect ws m = m\<lparr>active := active m @ [ws]\<rparr>"

definition disconnect :: "websocket \<Rightarrow> connection_manager \<Rightarrow> connection_manager" where
  "disconnect ws m = (if ws \<in> set (active m) then m\<lparr>active := remove1 ws (active m)\<rparr> else m)"

text \<open>
  The first loop of \<open>broadcast\<close>: it returns the list \<open>dead\<close> and the deliveries it
  attempted, in order.
\<close>

fun send_loop ::
  "send_json \<Rightarrow> message \<Rightarrow> websocket list \<Rightarrow> websocket list \<Rightarrow> (websocket \<times> message) list
    \<Rightarrow> websocket list \<times> (websocket \<times> message) list" where
  "send_loop send message [] dead sent = (dead, sent)"
| "send_loop send message (ws # rest) dead sent =
     (if send ws message
      then send_loop send message rest dead (sent @ [(ws, message)])
      else send_loop send message rest (dead @ [ws]) (sent @ [(ws, message)]))"

definition broadcast ::
  "send_json \<Rightarrow> message \<Rightarrow> connection_manager
    \<Rightarrow> connection_manager \<times> (websocket \<times> message) list" where
  "broadcast send message m =
     (case send_loop send message (active m) [] [] of
        (dead, sent) \<Rightarrow> (fold disconnect dead m, sent))"

section \<open>The application state and its errors\<close>

record system =
  db :: database
  manager :: connection_manager
  wire :: "(websocket \<times> message) list"

datatype detail =
    Login_required
  | Admins_cannot_place_bids
  | Admin_only
  | Vehicle_not_found
  | Auction_has_ended
  | Auction_period_has_expired
  | Bid_must_be_greater decimal

datatype error = HTTPException nat detail | ValueError | IntegrityError

section \<open>Helpers\<close>

definition get_current_user :: "int option \<Rightarrow> database \<Rightarrow> user option" where
  "get_current_user session d =
     (case session of
        None \<Rightarrow> None
      | Some uid \<Rightarrow> if uid = 0 then None else find (\<lambda>u. u_id u = uid) (users d))"

text \<open>
  \<open>query.order_by(key.desc())\<close>: the rows sorted by descending key. Neither query of
  main.py gives a second sort key, so the order of rows with equal keys is the storage
  engine's: \<open>tie\<close> ranks such rows (the engine's row order), and the sort on the key is
  stable on top of it. \<open>first_row\<close> is \<open>.first()\<close>.
\<close>

definition order_by_desc ::
  "(bid \<Rightarrow> 'k::linordered_idom) \<Rightarrow> (bid \<Rightarrow> int) \<Rightarrow> bid list \<Rightarrow> bid list" where
  "order_by_desc key tie rows = sort_key (\<lambda>b. - key b) (sort_key tie rows)"

definition first_row :: "'a list \<Rightarrow> 'a option" where
  "first_row rows = (case rows of [] \<Rightarrow> None | r # _ \<Rightarrow> Some r)"

definition top_bid_of :: "(bid \<Rightarrow> int) \<Rightarrow> bid list \<Rightarrow> int \<Rightarrow> bid option" where
  "top_bid_of tie all_bids vid =
     first_row (order_by_desc amount tie (filter (\<lambda>b. vehicle_id b = vid) all_bids))"

text \<open>The body of the loop of \<open>finalize_auctions\<close>, for one expired open vehicle.\<close>

definition finalize_vehicle :: "(bid \<Rightarrow> int) \<Rightarrow> bid list \<Rightarrow> vehicle \<Rightarrow> vehicle" where
  "finalize_vehicle tie all_bids v =
     (case top_bid_of tie all_bids (v_id v) of
        None \<Rightarrow> v\<lparr>is_active := False\<rparr>
      | Some top_bid \<Rightarrow> v\<lparr>is_active := False, owner_id := Some (user_id top_bid)\<rparr>)"

definition expired :: "datetime \<Rightarrow> vehicle \<Rightarrow> bool" where
  "expired now v = (is_active v \<and> auction_end v \<le> now)"

definition finalize_auctions :: "(bid \<Rightarrow> int) \<Rightarrow> datetime \<Rightarrow> database \<Rightarrow> database" where
  "finalize_auctions tie now d =
     d\<lparr>vehicles :=
         map (\<lambda>v. if expired now v then finalize_vehicle tie (bids d) v else v) (vehicles d)\<rparr>"

section \<open>Endpoints\<close>

text \<open>
  Every handler takes the session's \<open>user_id\<close>, the clock readings it makes, the outcomes
  of the sends and what the engine contributes, and returns its response or the exception
  it raises, with the state it leaves. \<open>datetime.fromisoformat\<close> is applied by the caller:
  \<open>None\<close> stands for a string it rejects with \<open>ValueError\<close>. The uploaded image is reduced
  to the URL stored, and the image files on disk are not part of the state.
\<close>

definition register ::
  "string \<Rightarrow> string \<Rightarrow> string \<Rightarrow> int \<Rightarrow> database \<Rightarrow> (error + user option) \<times> database" where
  "register name mail pw new_id d =
     (case find (\<lambda>u. username u = name \<or> email u = mail) (users d) of
        Some existing \<Rightarrow> (Inr None, d)
      | None \<Rightarrow>
          if new_id \<in> set (user_ids d) then (Inl IntegrityError, d)
          else
            let new_user = \<lparr>u_id = new_id, username = name, email = mail, password = pw,
                             is_admin = False\<rparr>
            in (Inr (Some new_user), d\<lparr>users := users d @ [new_user]\<rparr>))"

text \<open>
  The new row keeps the price of the form in both price columns. After
  \<open>db.refresh(vehicle)\<close> the vehicle that is broadcast carries the prices as they are read.
\<close>

definition admin_add_vehicle ::
  "column \<Rightarrow> send_json \<Rightarrow> int option \<Rightarrow> string \<Rightarrow> string \<Rightarrow> decimal \<Rightarrow> datetime option
    \<Rightarrow> string option \<Rightarrow> int \<Rightarrow> system \<Rightarrow> (error + unit) \<times> system" where
  "admin_add_vehicle col send session ttl descr price end_dt img new_id s =
     (case get_current_user session (db s) of
        None \<Rightarrow> (Inl (HTTPException 403 Admin_only), s)
      | Some usr \<Rightarrow>
          if \<not> is_admin usr then (Inl (HTTPException 403 Admin_only), s)
          else (case end_dt of
            None \<Rightarrow> (Inl ValueError, s)
          | Some e \<Rightarrow>
              if new_id \<in> set (vehicle_ids (db s)) then (Inl IntegrityError, s)
              else
                let d = db s;
                    new_vehicle = \<lparr>v_id = new_id, title = ttl, description = descr,
                      image_url = img, starting_price = keep col price,
                      current_price = keep col price, auction_end = e, is_active = True,
                      owner_id = None\<rparr>;
                    d' = d\<lparr>vehicles := vehicles d @ [new_vehicle]\<rparr>
                in (case broadcast send (Vehicle_added (read_vehicle col new_vehicle))
                          (manager s) of
                     (m', sent) \<Rightarrow>
                       (Inr (), \<lparr>db = d', manager = m', wire = wire s @ sent\<rparr>))))"

text \<open>
  \<open>db.delete(vehicle)\<close> removes the vehicle's bids too: the relationship \<open>Vehicle.bids\<close>
  cascades \<open>all, delete-orphan\<close>.
\<close>

definition admin_delete_vehicle ::
  "send_json \<Rightarrow> int option \<Rightarrow> int \<Rightarrow> system \<Rightarrow> (error + unit) \<times> system" where
  "admin_delete_vehicle send session vid s =
     (case get_current_user session (db s) of
        None \<Rightarrow> (Inl (HTTPException 403 Admin_only), s)
      | Some usr \<Rightarrow>
          if \<not> is_admin usr then (Inl (HTTPException 403 Admin_only), s)
          else (case find (\<lambda>v. v_id v = vid) (vehicles (db s)) of
            None \<Rightarrow> (Inl (HTTPException 404 Vehicle_not_found), s)
          | Some veh \<Rightarrow>
              let d = db s;
                  d' = d\<lparr>vehicles := filter (\<lambda>v. v_id v \<noteq> v_id veh) (vehicles d),
                         bids := filter (\<lambda>b. vehicle_id b \<noteq> v_id veh) (bids d)\<rparr>
              in (case broadcast send (Vehicle_removed vid) (manager s) of
                   (m', sent) \<Rightarrow>
                     (Inr (), \<lparr>db = d', manager = m', wire = wire s @ sent\<rparr>))))"

definition admin_update_auction ::
  "int option \<Rightarrow> int \<Rightarrow> datetime option \<Rightarrow> system \<Rightarrow> (error + unit) \<times> system" where
  "admin_update_auction session vid end_dt s =
     (case get_current_user session (db s) of
        None \<Rightarrow> (Inl (HTTPException 403 Admin_only), s)
      | Some usr \<Rightarrow>
          if \<not> is_admin usr then (Inl (HTTPException 403 Admin_only), s)
          else (case find (\<lambda>v. v_id v = vid) (vehicles (db s)) of
            None \<Rightarrow> (Inl (HTTPException 404 Vehicle_not_found), s)
          | Some veh \<Rightarrow>
              (case end_dt of
                 None \<Rightarrow> (Inl ValueError, s)
               | Some e \<Rightarrow>
                   let d = db s;
                       d' = d\<lparr>vehicles :=
                              map (\<lambda>v. if v_id v = v_id veh then v\<lparr>auction_end := e\<rparr> else v)
                                (vehicles d)\<rparr>
                   in (Inr (), s\<lparr>db := d'\<rparr>))))"

text \<open>
  \<open>api_place_bid\<close> reads the clock once (\<open>now\<close>); \<open>db_now\<close> is the server time that the
  insert writes into \<open>created_at\<close>. The amount of the request is compared, as it is, with
  the vehicle's \<open>current_price\<close> as Python reads it. The commit writes the amount into the
  vehicle's \<open>current_price\<close>, by primary key, and into the new bid's \<open>amount\<close>. The
  handler returns the bid as \<open>db.refresh(new_bid)\<close> reads it, and broadcasts the price as
  read after the commit.
\<close>

definition api_place_bid ::
  "column \<Rightarrow> send_json \<Rightarrow> int option \<Rightarrow> bid_create \<Rightarrow> datetime \<Rightarrow> datetime \<Rightarrow> int \<Rightarrow> system
    \<Rightarrow> (error + bid) \<times> system" where
  "api_place_bid col send session bid now db_now new_id s =
     (case get_current_user session (db s) of
        None \<Rightarrow> (Inl (HTTPException 401 Login_required), s)
      | Some usr \<Rightarrow>
          if is_admin usr then (Inl (HTTPException 403 Admins_cannot_place_bids), s)
          else (case find (\<lambda>v. v_id v = bc_vehicle_id bid) (vehicles (db s)) of
            None \<Rightarrow> (Inl (HTTPException 404 Vehicle_not_found), s)
          | Some veh \<Rightarrow>
              if \<not> is_active veh then (Inl (HTTPException 400 Auction_has_ended), s)
              else if now \<ge> auction_end veh
                then (Inl (HTTPException 400 Auction_period_has_expired), s)
              else if bc_amount bid \<le> load col (current_price veh)
                then (Inl (HTTPException 400 (Bid_must_be_greater (load col (current_price veh)))),
                      s)
              else if new_id \<in> set (bid_ids (db s)) then (Inl IntegrityError, s)
              else
                let d = db s;
                    new_bid = \<lparr>b_id = new_id, amount = keep col (bc_amount bid),
                      user_id = u_id usr, vehicle_id = v_id veh, created_at = db_now\<rparr>;
                    d' = d\<lparr>vehicles :=
                           map (\<lambda>v. if v_id v = v_id veh
                                    then v\<lparr>current_price := keep col (bc_amount bid)\<rparr> else v)
                             (vehicles d),
                          bids := bids d @ [new_bid]\<rparr>
                in (case broadcast send
                          (Bid_update (v_id veh) (load col (keep col (bc_amount bid)))
                             (username usr))
                          (manager s) of
                     (m', sent) \<Rightarrow>
                       (Inr (read_bid col new_bid),
                        \<lparr>db = d', manager = m', wire = wire s @ sent\<rparr>))))"

definition api_get_bids :: "column \<Rightarrow> (bid \<Rightarrow> int) \<Rightarrow> int \<Rightarrow> database \<Rightarrow> bid list" where
  "api_get_bids col tie vid d =
     map (read_bid col)
       (order_by_desc created_at tie (filter (\<lambda>b. vehicle_id b = vid) (bids d)))"

section \<open>Runs of the application\<close>

text \<open>
  One request with everything the environment contributes to it. \<open>Sweep\<close> is any of
  the pages that call \<open>finalize_auctions\<close> before reading. The behaviour \<open>col\<close> of the
  price columns is the same for every request of a run.
\<close>

datatype request =
    Register string string string int
  | Add_vehicle send_json "int option" string string decimal "datetime option" "string option" int
  | Delete_vehicle send_json "int option" int
  | Update_auction "int option" int "datetime option"
  | Place_bid send_json "int option" bid_create datetime datetime int
  | Sweep "bid \<Rightarrow> int" datetime
  | Ws_connect websocket
  | Ws_disconnect websocket

fun exec :: "column \<Rightarrow> request \<Rightarrow> system \<Rightarrow> system" where
  "exec col (Register name mail pw new_id) s =
     s\<lparr>db := snd (register name mail pw new_id (db s))\<rparr>"
| "exec col (Add_vehicle send session ttl descr price end_dt img new_id) s =
     snd (admin_add_vehicle col send session ttl descr price end_dt img new_id s)"
| "exec col (Delete_vehicle send session vid) s =
     snd (admin_delete_vehicle send session vid s)"
| "exec col (Update_auction session vid end_dt) s =
     snd (admin_update_auction session vid end_dt s)"
| "exec col (Place_bid send session bid now db_now new_id) s =
     snd (api_place_bid col send session bid now db_now new_id s)"
| "exec col (Sweep tie now) s = s\<lparr>db := finalize_auctions tie now (db s)\<rparr>"
| "exec col (Ws_connect ws) s = s\<lparr>manager := connect ws (manager s)\<rparr>"
| "exec col (Ws_disconnect ws) s = s\<lparr>manager := disconnect ws (manager s)\<rparr>"

fun run :: "column \<Rightarrow> request list \<Rightarrow> system \<Rightarrow> system" where
  "run col [] s = s"
| "run col (r # rs) s = run col rs (exec col r s)"

text \<open>A freshly installed application: users (among them the administrators), no vehicle, no bid.\<close>

definition initial :: "system \<Rightarrow> bool" where
  "initial s = (vehicles (db s) = [] \<and> bids (db s) = [])"

text \<open>
  The vehicle of key \<open>k\<close> is in the table before the requests \<open>rs\<close> and after each of
  them: the run stays within the lifetime of that lot.
\<close>

fun alive :: "column \<Rightarrow> int \<Rightarrow> request list \<Rightarrow> system \<Rightarrow> bool" where
  "alive col k [] s = (k \<in> set (vehicle_ids (db s)))"
| "alive col k (r # rs) s = (k \<in> set (vehicle_ids (db s)) \<and> alive col k rs (exec col r s))"

section \<open>Properties of a database state\<close>

definition lot_bids :: "database \<Rightarrow> int \<Rightarrow> bid list" where
  "lot_bids d vid = filter (\<lambda>b. vehicle_id b = vid) (bids d)"

text \<open>
  The amount of the bid accepted last for a vehicle (the bids table is in insertion
  order), or the starting price when it has no bid.
\<close>

definition latest_price :: "database \<Rightarrow> vehicle \<Rightarrow> decimal" where
  "latest_price d v =
     (if lot_bids d (v_id v) = [] then starting_price v else amount (last (lot_bids d (v_id v))))"

definition price_inv :: "database \<Rightarrow> bool" where
  "price_inv d = (\<forall>v \<in> set (vehicles d). current_price v = latest_price d v)"

text \<open>
  Primary keys of vehicles are unique, and every bid refers to a vehicle of the table.
\<close>

definition keys_inv :: "database \<Rightarrow> bool" where
  "keys_inv d =
     (distinct (vehicle_ids d) \<and>
      (\<forall>b \<in> set (bids d). vehicle_id b \<in> set (vehicle_ids d)))"

text \<open>
  The price of a vehicle as Python reads it, and what a value reads as after it has
  been written.
\<close>

definition shown_price :: "column \<Rightarrow> vehicle \<Rightarrow> decimal" where
  "shown_price col v = load col (current_price v)"

definition written :: "column \<Rightarrow> decimal \<Rightarrow> decimal" where
  "written col x = load col (keep col x)"

text \<open>Every price read is a value that reads the same after it is written again.\<close>

definition stored_inv :: "column \<Rightarrow> database \<Rightarrow> bool" where
  "stored_inv col d =
     (\<forall>v \<in> set (vehicles d). written col (shown_price col v) = shown_price col v)"

definition unowned_inv :: "database \<Rightarrow> bool" where
  "unowned_inv d = (\<forall>v \<in> set (vehicles d). is_active v \<longrightarrow> owner_id v = None)"

text \<open>No vehicle that is in both tables reads a lower price in the second.\<close>

definition price_le :: "column \<Rightarrow> database \<Rightarrow> database \<Rightarrow> bool" where
  "price_le col d d' =
     (\<forall>v \<in> set (vehicles d). \<forall>v' \<in> set (vehicles d').
        v_id v' = v_id v \<longrightarrow> shown_price col v \<le> shown_price col v')"

text \<open>
  What writing a value to a column of fixed scale and reading it back does, whatever
  the rounding mode and wherever the rounding is done: it keeps the order of values, and
  a value that has been read from the column reads the same after it is written again.
\<close>

definition rounding :: "column \<Rightarrow> bool" where
  "rounding col =
     ((\<forall>x y. x \<le> y \<longrightarrow> written col x \<le> written col y) \<and>
      (\<forall>x. written col (written col x) = written col x))"

text \<open>A bid of the greatest amount among the rows.\<close>

definition highest :: "bid list \<Rightarrow> bid \<Rightarrow> bool" where
  "highest rows b = list_all (\<lambda>c. amount c \<le> amount b) rows"

section \<open>A sample installation\<close>

text \<open>
  Rounding to two places, half up, and two engines: one rounds when it writes, the other
  keeps what is written and rounds when the column is read.
\<close>

definition two_places :: "decimal \<Rightarrow> decimal" where
  "two_places x = of_int \<lfloor>x * 100 + 1 / 2\<rfloor> / 100"

definition rounds_on_write :: column where
  "rounds_on_write = \<lparr>keep = two_places, load = (\<lambda>p. p)\<rparr>"

definition rounds_on_read :: column where
  "rounds_on_read = \<lparr>keep = (\<lambda>x. x), load = two_places\<rparr>"

definition alice :: user where
  "alice = \<lparr>u_id = 1, username = ''alice'', email = ''alice@example.org'', password = ''pw1'',
     is_admin = False\<rparr>"

definition bob :: user where
  "bob = \<lparr>u_id = 2, username = ''bob'', email = ''bob@example.org'', password = ''pw2'',
     is_admin = False\<rparr>"

definition root :: user where
  "root = \<lparr>u_id = 3, username = ''root'', email = ''root@example.org'', password = ''pw3'',
     is_admin = True\<rparr>"

definition fresh :: system where
  "fresh = \<lparr>db = \<lparr>users = [alice, bob, root], vehicles = [], bids = []\<rparr>,
     manager = \<lparr>active = []\<rparr>, wire = []\<rparr>"

definition all_sent :: send_json where
  "all_sent ws message = True"

definition car :: vehicle where
  "car = \<lparr>v_id = 1, title = ''car'', description = [], image_url = None,
     starting_price = 1000, current_price = 1000, auction_end = 100, is_active = True,
     owner_id = None\<rparr>"

text \<open>One open lot of starting price 1000 and deadline 100, no bid.\<close>

definition listed :: system where
  "listed = \<lparr>db = \<lparr>users = [alice, bob, root], vehicles = [car], bids = []\<rparr>,
     manager = \<lparr>active = []\<rparr>, wire = []\<rparr>"

definition add_car :: request where
  "add_car = Add_vehicle all_sent (Some 3) ''car'' [] 1000 (Some 100) None 1"

definition bid_a :: bid where
  "bid_a = \<lparr>b_id = 1, amount = 1200, user_id = 1, vehicle_id = 1, created_at = 90\<rparr>"

definition bid_b :: bid where
  "bid_b = \<lparr>b_id = 2, amount = 1500, user_id = 2, vehicle_id = 1, created_at = 95\<rparr>"

text \<open>The same lot after alice's bid of 1200 and bob's bid of 1500.\<close>

definition bidden :: system where
  "bidden = \<lparr>db = \<lparr>users = [alice, bob, root], vehicles = [car\<lparr>current_price := 1500\<rparr>],
     bids = [bid_a, bid_b]\<rparr>, manager = \<lparr>active = []\<rparr>, wire = []\<rparr>"

definition history :: "request list" where
  "history =
     [add_car,
      Place_bid all_sent (Some 1) \<lparr>bc_amount = 1200, bc_vehicle_id = 1\<rparr> 80 90 1,
      Place_bid all_sent (Some 2) \<lparr>bc_amount = 1500, bc_vehicle_id = 1\<rparr> 85 95 2]"

text \<open>The lot closed by a sweep after the deadline, awarded to bob.\<close>

definition sold :: system where
  "sold = \<lparr>db = \<lparr>users = [alice, bob, root],
     vehicles = [car\<lparr>current_price := 1500, is_active := False, owner_id := Some 2\<rparr>],
     bids = [bid_a, bid_b]\<rparr>, manager = \<lparr>active = []\<rparr>, wire = []\<rparr>"

text \<open>
  Two bids that read as the same amount: alice bids 1000.004 (250001 / 250), which
  reads as 1000.00, and bob then bids 1000.002 (500001 / 500), which is above the price
  read and reads as 1000.00 too. On the engine that rounds when it writes the table is
  \<open>tied\<close>; on the engine that rounds when it reads it is \<open>shaded\<close>, where the price kept
  has gone down while the price read has not. Two row orders an engine may use for rows
  of equal amount: by ascending and by descending primary key.
\<close>

definition bid_c :: bid where
  "bid_c = \<lparr>b_id = 1, amount = 1000, user_id = 1, vehicle_id = 1, created_at = 90\<rparr>"

definition bid_d :: bid where
  "bid_d = \<lparr>b_id = 2, amount = 1000, user_id = 2, vehicle_id = 1, created_at = 95\<rparr>"

definition tied :: system where
  "tied = \<lparr>db = \<lparr>users = [alice, bob, root], vehicles = [car], bids = [bid_c, bid_d]\<rparr>,
     manager = \<lparr>active = []\<rparr>, wire = []\<rparr>"

definition shaded :: system where
  "shaded = \<lparr>db = \<lparr>users = [alice, bob, root],
     vehicles = [car\<lparr>current_price := 500001 / 500\<rparr>],
     bids = [bid_c\<lparr>amount := 250001 / 250\<rparr>, bid_d\<lparr>amount := 500001 / 500\<rparr>]\<rparr>,
     manager = \<lparr>active = []\<rparr>, wire = []\<rparr>"

definition close_bids :: "request list" where
  "close_bids =
     [Place_bid all_sent (Some 1) \<lparr>bc_amount = 250001 / 250, bc_vehicle_id = 1\<rparr> 80 90 1,
      Place_bid all_sent (Some 2) \<lparr>bc_amount = 500001 / 500, bc_vehicle_id = 1\<rparr> 85 95 2]"

text \<open>
  The same two amounts in the other order: alice bids 1000.002 and bob then bids
  1000.004. On the engine that rounds when it reads, both bids read as 1000.00 and the
  table keeps bob's as the greater.
\<close>

definition late_bids :: "request list" where
  "late_bids =
     [Place_bid all_sent (Some 1) \<lparr>bc_amount = 500001 / 500, bc_vehicle_id = 1\<rparr> 80 90 1,
      Place_bid all_sent (Some 2) \<lparr>bc_amount = 250001 / 250, bc_vehicle_id = 1\<rparr> 85 95 2]"

definition skewed :: system where
  "skewed = \<lparr>db = \<lparr>users = [alice, bob, root],
     vehicles = [car\<lparr>current_price := 250001 / 250\<rparr>],
     bids = [bid_c\<lparr>amount := 500001 / 500\<rparr>, bid_d\<lparr>amount := 250001 / 250\<rparr>]\<rparr>,
     manager = \<lparr>active = []\<rparr>, wire = []\<rparr>"

definition earliest_first :: "bid \<Rightarrow> int" where
  "earliest_first b = b_id b"

definition latest_first :: "bid \<Rightarrow> int" where
  "latest_first b = - b_id b"

text \<open>
  A table, written by hand, in which the bid of the greatest amount is not the last
  one and not the one at the current price.
\<close>

definition bid_e :: bid where
  "bid_e = \<lparr>b_id = 1, amount = 1600, user_id = 1, vehicle_id = 1, created_at = 90\<rparr>"

definition uneven :: database where
  "uneven = \<lparr>users = [alice, bob, root], vehicles = [car\<lparr>current_price := 1500\<rparr>],
     bids = [bid_e, bid_b]\<rparr>"

section \<open>The effect of one request on the database\<close>

text \<open>
  The changes that the handlers make to the tables, with what the handler has checked
  before it writes.
\<close>

inductive db_step :: "column \<Rightarrow> database \<Rightarrow> database \<Rightarrow> bool" for col where
  same: "db_step col d d"
| registered: "db_step col d (d\<lparr>users := us\<rparr>)"
| added:
    "k \<notin> set (vehicle_ids d) \<Longrightarrow>
     nv = \<lparr>v_id = k, title = ttl, description = descr, image_url = img,
            starting_price = keep col p, current_price = keep col p, auction_end = e,
            is_active = True, owner_id = None\<rparr> \<Longrightarrow>
     db_step col d (d\<lparr>vehicles := vehicles d @ [nv]\<rparr>)"
| deleted:
    "db_step col d (d\<lparr>vehicles := filter (\<lambda>v. v_id v \<noteq> k) (vehicles d),
                         bids := filter (\<lambda>b. vehicle_id b \<noteq> k) (bids d)\<rparr>)"
| rescheduled:
    "db_step col d (d\<lparr>vehicles :=
        map (\<lambda>v. if v_id v = k then v\<lparr>auction_end := e\<rparr> else v) (vehicles d)\<rparr>)"
| bid_placed:
    "veh \<in> set (vehicles d) \<Longrightarrow> is_active veh \<Longrightarrow> shown_price col veh < a \<Longrightarrow>
     vehicle_id nb = v_id veh \<Longrightarrow> amount nb = keep col a \<Longrightarrow>
     db_step col d
       (d\<lparr>vehicles :=
            map (\<lambda>v. if v_id v = v_id veh then v\<lparr>current_price := keep col a\<rparr> else v) (vehicles d),
          bids := bids d @ [nb]\<rparr>)"
| swept: "db_step col d (finalize_auctions tie now d)"

section \<open>Basic facts\<close>

lemmas sample_defs = fresh_def listed_def bidden_def sold_def tied_def shaded_def skewed_def
  uneven_def late_bids_def
  alice_def bob_def root_def car_def bid_a_def bid_b_def bid_c_def bid_d_def bid_e_def
  all_sent_def add_car_def history_def close_bids_def

lemma find_SomeD: "find P xs = Some x \<Longrightarrow> P x \<and> x \<in> set xs"
  by (induction xs) (auto split: if_splits)

subsection \<open>The sample engine\<close>

lemma two_places_int: "two_places (of_int n) = of_int n"
proof -
  have "\<lfloor>(of_int n :: rat) * 100 + 1 / 2\<rfloor> = n * 100"
    by (rule floor_unique) simp_all
  then show ?thesis by (simp add: two_places_def)
qed

lemma two_places_whole [simp]:
  "two_places 1000 = 1000" "two_places 1200 = 1200" "two_places 1500 = 1500"
  using two_places_int [of 1000] two_places_int [of 1200] two_places_int [of 1500] by simp_all

lemma floor_close_a: "\<lfloor>(250001 / 250 :: rat) * 100 + 1 / 2\<rfloor> = 100000"
  by (rule floor_unique) simp_all

lemma floor_close_b: "\<lfloor>(500001 / 500 :: rat) * 100 + 1 / 2\<rfloor> = 100000"
  by (rule floor_unique) simp_all

lemma two_places_close [simp]:
  "two_places (250001 / 250) = 1000" "two_places (500001 / 500) = 1000"
  unfolding two_places_def floor_close_a floor_close_b by simp_all

lemma two_places_mono: "x \<le> y \<Longrightarrow> two_places x \<le> two_places y"
  unfolding two_places_def
  by (intro divide_right_mono of_int_le_iff [THEN iffD2] floor_mono) simp_all

lemma two_places_idem: "two_places (two_places x) = two_places x"
proof -
  have "\<lfloor>(of_int n / 100 :: rat) * 100 + 1 / 2\<rfloor> = n" for n
    by (rule floor_unique) simp_all
  then show ?thesis by (simp add: two_places_def)
qed

lemma sample_columns [simp]:
  "keep rounds_on_write = two_places" "load rounds_on_write p = p"
  "keep rounds_on_read x = x" "load rounds_on_read = two_places"
  by (simp_all add: rounds_on_write_def rounds_on_read_def)

lemma rounding_rounds_on_write: "rounding rounds_on_write"
  by (simp add: rounding_def written_def two_places_mono two_places_idem)

lemma rounding_rounds_on_read: "rounding rounds_on_read"
  by (simp add: rounding_def written_def two_places_mono two_places_idem)

subsection \<open>Broadcast\<close>

lemma send_loop_eq:
  "send_loop send msg xs dead sent =
     (dead @ filter (\<lambda>w. \<not> send w msg) xs, sent @ map (\<lambda>w. (w, msg)) xs)"
  by (induction xs arbitrary: dead sent) auto

lemma fold_remove1_keep: "x \<notin> set ds \<Longrightarrow> fold remove1 ds (x # ys) = x # fold remove1 ds ys"
  by (induction ds arbitrary: ys) auto

lemma fold_remove1_filter: "fold remove1 (filter (\<lambda>w. \<not> P w) xs) xs = filter P xs"
  by (induction xs) (auto simp: fold_remove1_keep)

lemma disconnect_eq: "disconnect ws m = m\<lparr>active := remove1 ws (active m)\<rparr>"
  by (simp add: disconnect_def remove1_idem)

lemma fold_disconnect: "fold disconnect ds m = m\<lparr>active := fold remove1 ds (active m)\<rparr>"
  by (induction ds arbitrary: m) (simp_all add: disconnect_eq)

lemma broadcast_eq:
  "broadcast send msg m =
     (m\<lparr>active := filter (\<lambda>w. send w msg) (active m)\<rparr>, map (\<lambda>w. (w, msg)) (active m))"
  by (simp add: broadcast_def send_loop_eq fold_disconnect fold_remove1_filter)

lemmas place_bid_unfold = api_place_bid_def broadcast_eq Let_def

subsection \<open>Ordered queries\<close>

lemma set_order_by_desc: "set (order_by_desc key tie rows) = set rows"
  by (simp add: order_by_desc_def)

lemma mset_order_by_desc: "mset (order_by_desc key tie rows) = mset rows"
  by (simp add: order_by_desc_def)

lemma sorted_order_by_desc:
  "sorted_wrt (\<lambda>a b. key b \<le> key a) (order_by_desc key tie rows)"
proof -
  have "sorted (map (\<lambda>b. - key b) (order_by_desc key tie rows))"
    unfolding order_by_desc_def by (rule sorted_sort_key)
  then show ?thesis by (simp add: sorted_map)
qed

lemma first_row_None: "first_row rows = None \<longleftrightarrow> rows = []"
  by (simp add: first_row_def split: list.splits)



lemma top_bid_of_None:
  "top_bid_of tie all_bids vid = None \<longleftrightarrow> filter (\<lambda>b. vehicle_id b = vid) all_bids = []"
  unfolding top_bid_of_def first_row_None
  by (metis set_order_by_desc set_empty)

lemma top_bid_of_Some:
  assumes "top_bid_of tie all_bids vid = Some b"
  shows "b \<in> set (filter (\<lambda>b. vehicle_id b = vid) all_bids) \<and>
         (\<forall>c \<in> set (filter (\<lambda>b. vehicle_id b = vid) all_bids). amount c \<le> amount b)"
proof -
  let ?rows = "filter (\<lambda>b. vehicle_id b = vid) all_bids"
  from assms obtain rest where ys: "order_by_desc amount tie ?rows = b # rest"
    by (auto simp: top_bid_of_def first_row_def split: list.splits)
  have "sorted_wrt (\<lambda>a b. amount b \<le> amount a) (b # rest)"
    using sorted_order_by_desc [of amount tie ?rows] ys by simp
  then have "\<forall>c \<in> set (b # rest). amount c \<le> amount b" by auto
  moreover have "set (b # rest) = set ?rows"
    using set_order_by_desc [of amount tie ?rows] ys by simp
  ultimately show ?thesis by auto
qed

subsection \<open>The sweep\<close>

lemma finalize_auctions_fields [simp]:
  "bids (finalize_auctions tie now d) = bids d"
  "users (finalize_auctions tie now d) = users d"
  "length (vehicles (finalize_auctions tie now d)) = length (vehicles d)"
  by (simp_all add: finalize_auctions_def)

lemma finalize_auctions_nth:
  "i < length (vehicles d) \<Longrightarrow>
   vehicles (finalize_auctions tie now d) ! i =
     (if expired now (vehicles d ! i) then finalize_vehicle tie (bids d) (vehicles d ! i)
      else vehicles d ! i)"
  by (simp add: finalize_auctions_def)

lemma not_expired_finalize_vehicle: "\<not> expired now (finalize_vehicle tie bs v)"
  by (simp add: expired_def finalize_vehicle_def split: option.splits)

lemma expired_mono: "now' \<le> now \<Longrightarrow> expired now' v \<Longrightarrow> expired now v"
  by (simp add: expired_def)

lemma sweep_twice:
  assumes "now' \<le> now"
  shows "finalize_auctions tie' now' (finalize_auctions tie now d) = finalize_auctions tie now d"
proof -
  have "\<not> expired now' (if expired now v then finalize_vehicle tie (bids d) v else v)" for v
    using assms by (auto simp: not_expired_finalize_vehicle dest: expired_mono)
  then show ?thesis by (simp add: finalize_auctions_def)
qed

lemma finalize_vehicle_fields [simp]:
  "v_id (finalize_vehicle tie bs v) = v_id v"
  "current_price (finalize_vehicle tie bs v) = current_price v"
  "starting_price (finalize_vehicle tie bs v) = starting_price v"
  "\<not> is_active (finalize_vehicle tie bs v)"
  by (simp_all add: finalize_vehicle_def split: option.splits)

lemma vehicle_ids_finalize [simp]: "vehicle_ids (finalize_auctions tie now d) = vehicle_ids d"
  by (simp add: finalize_auctions_def vehicle_ids_def)

lemma lot_bids_finalize [simp]: "lot_bids (finalize_auctions tie now d) k = lot_bids d k"
  by (simp add: lot_bids_def)

subsection \<open>The sample installation\<close>

lemmas eval_defs = admin_add_vehicle_def api_place_bid_def get_current_user_def broadcast_def
  finalize_auctions_def finalize_vehicle_def top_bid_of_def order_by_desc_def first_row_def
  expired_def earliest_first_def latest_first_def lot_bids_def latest_price_def initial_def
  vehicle_ids_def bid_ids_def read_bid_def read_vehicle_def shown_price_def Let_def

lemma run_listed: "run rounds_on_write [add_car] fresh = listed"
  by (simp add: eval_defs sample_defs)

lemma run_history: "run rounds_on_write history fresh = bidden"
  by (simp add: eval_defs sample_defs)


lemma run_listed_read: "run rounds_on_read [add_car] fresh = listed"
  by (simp add: eval_defs sample_defs)

lemma run_close_bids_read: "run rounds_on_read close_bids listed = shaded"
  by (simp add: eval_defs sample_defs)


lemma sweep_sample: "finalize_auctions earliest_first 101 (db bidden) = db sold"
  by (simp add: eval_defs sample_defs)

section \<open>Invariants of the database\<close>

subsection \<open>Every request is a step\<close>

lemma exec_db_step: "db_step col (db s) (db (exec col r s))"
proof (cases r)
  case (Register name mail pw new_id)
  then show ?thesis
    by (auto simp: register_def Let_def split: option.splits
        intro: db_step.same db_step.registered)
next
  case (Add_vehicle send session ttl descr price end_dt img new_id)
  then show ?thesis
    by (auto simp: admin_add_vehicle_def broadcast_eq Let_def split: option.splits
        intro: db_step.same db_step.added)
next
  case (Delete_vehicle send session vid)
  then show ?thesis
    by (auto simp: admin_delete_vehicle_def broadcast_eq Let_def split: option.splits
        intro: db_step.same db_step.deleted)
next
  case (Update_auction session vid end_dt)
  then show ?thesis
    by (auto simp: admin_update_auction_def Let_def split: option.splits
        intro: db_step.same db_step.rescheduled)
next
  case (Place_bid send session bid now db_now new_id)
  then show ?thesis
    by (auto simp: place_bid_unfold shown_price_def split: option.splits dest!: find_SomeD
        intro!: db_step.same db_step.bid_placed)
next
  case (Sweep tie now)
  then show ?thesis by (simp add: db_step.swept)
next
  case (Ws_connect ws)
  then show ?thesis by (simp add: db_step.same)
next
  case (Ws_disconnect ws)
  then show ?thesis by (simp add: db_step.same)
qed

subsection \<open>Steps preserve the invariants\<close>

lemma map_v_id_same: "(\<And>v. v_id (f v) = v_id v) \<Longrightarrow> map v_id (map f vs) = map v_id vs"
  by simp

lemma keys_inv_step:
  assumes "db_step col d d'" and "keys_inv d"
  shows "keys_inv d'"
  using assms
proof (cases rule: db_step.cases)
  case (added k nv ttl descr img p e)
  then show ?thesis using assms(2) by (fastforce simp: keys_inv_def vehicle_ids_def)
next
  case (deleted k)
  then show ?thesis using assms(2)
    by (auto simp: keys_inv_def vehicle_ids_def distinct_map_filter)
next
  case (rescheduled k e)
  then have "vehicle_ids d' = vehicle_ids d"
    by (simp add: vehicle_ids_def map_v_id_same)
  then show ?thesis using assms(2) rescheduled by (simp add: keys_inv_def)
next
  case (bid_placed veh a nb)
  then have ids: "vehicle_ids d' = vehicle_ids d"
    by (simp add: vehicle_ids_def map_v_id_same)
  have "vehicle_id nb \<in> set (vehicle_ids d)"
    using bid_placed by (auto simp: vehicle_ids_def)
  moreover have "bids d' = bids d @ [nb]"
    using bid_placed by simp
  ultimately show ?thesis using assms(2) ids by (auto simp: keys_inv_def)
next
  case (swept tie now)
  then show ?thesis using assms(2) by (simp add: keys_inv_def)
qed (auto simp: keys_inv_def vehicle_ids_def)

lemma lot_bids_fresh:
  assumes "keys_inv d" and "k \<notin> set (vehicle_ids d)"
  shows "lot_bids d k = []"
  using assms by (auto simp: keys_inv_def lot_bids_def filter_empty_conv)

lemma same_id_same_vehicle:
  "keys_inv d \<Longrightarrow> v \<in> set (vehicles d) \<Longrightarrow> w \<in> set (vehicles d) \<Longrightarrow> v_id v = v_id w \<Longrightarrow> v = w"
  by (simp add: keys_inv_def vehicle_ids_def distinct_map inj_on_def)

lemma price_inv_step:
  assumes "db_step col d d'" and "keys_inv d" and "price_inv d"
  shows "price_inv d'"
  using assms(1)
proof (cases rule: db_step.cases)
  case same
  then show ?thesis using assms(3) by simp
next
  case (registered us)
  then show ?thesis using assms(3) by (simp add: price_inv_def latest_price_def lot_bids_def)
next
  case (added k nv ttl descr img p e)
  have "lot_bids d' j = lot_bids d j" for j
    using added by (simp add: lot_bids_def)
  moreover have "lot_bids d (v_id nv) = []"
    using added lot_bids_fresh [OF assms(2)] by simp
  ultimately show ?thesis
    using assms(3) added by (auto simp: price_inv_def latest_price_def)
next
  case (deleted k)
  have "lot_bids d' j = lot_bids d j" if "j \<noteq> k" for j
    using deleted that by (auto simp: lot_bids_def intro: filter_cong)
  then show ?thesis
    using assms(3) deleted by (auto simp: price_inv_def latest_price_def)
next
  case (rescheduled k e)
  have "lot_bids d' j = lot_bids d j" for j
    using rescheduled by (simp add: lot_bids_def)
  then show ?thesis
    using assms(3) rescheduled by (auto simp: price_inv_def latest_price_def)
next
  case (bid_placed veh a nb)
  have other: "lot_bids d' j = lot_bids d j" if "j \<noteq> v_id veh" for j
    using bid_placed that by (simp add: lot_bids_def)
  have this_lot: "lot_bids d' (v_id veh) = lot_bids d (v_id veh) @ [nb]"
    using bid_placed by (simp add: lot_bids_def)
  show ?thesis
    using assms(3) bid_placed other this_lot
    by (auto simp: price_inv_def latest_price_def)
next
  case (swept tie now)
  have lb: "lot_bids d' j = lot_bids d j" for j
    using swept by simp
  have "\<forall>v' \<in> set (vehicles d'). \<exists>v \<in> set (vehicles d). v_id v' = v_id v \<and>
      current_price v' = current_price v \<and> starting_price v' = starting_price v"
    using swept by (auto simp: finalize_auctions_def)
  then show ?thesis
    using assms(3) lb by (fastforce simp: price_inv_def latest_price_def)
qed

lemma unowned_inv_step:
  assumes "db_step col d d'" and "unowned_inv d"
  shows "unowned_inv d'"
  using assms(1)
proof (cases rule: db_step.cases)
  case (swept tie now)
  then show ?thesis
    using assms(2) by (auto simp: unowned_inv_def finalize_auctions_def)
qed (use assms(2) in \<open>auto simp: unowned_inv_def\<close>)

lemma stored_inv_step:
  assumes "db_step col d d'" and "rounding col" and "stored_inv col d"
  shows "stored_inv col d'"
  using assms(1)
proof (cases rule: db_step.cases)
  case (swept tie now)
  then show ?thesis
    using assms(3) by (auto simp: stored_inv_def shown_price_def finalize_auctions_def)
qed (use assms(2,3) in \<open>auto simp: stored_inv_def shown_price_def written_def rounding_def\<close>)

lemma price_le_refl: "keys_inv d \<Longrightarrow> price_le col d d"
  using same_id_same_vehicle [of d] by (fastforce simp: price_le_def)

lemma price_le_step:
  assumes "db_step col d d'" and "keys_inv d" and "rounding col" and "stored_inv col d"
  shows "price_le col d d'"
  using assms(1)
proof (cases rule: db_step.cases)
  case same
  then show ?thesis by (simp add: price_le_refl [OF assms(2)])
next
  case (registered us)
  then show ?thesis using price_le_refl [OF assms(2), of col] by (simp add: price_le_def)
next
  case (added k nv ttl descr img p e)
  then show ?thesis
    using price_le_refl [OF assms(2), of col] by (auto simp: price_le_def vehicle_ids_def)
next
  case (deleted k)
  then show ?thesis
    using price_le_refl [OF assms(2), of col] by (auto simp: price_le_def)
next
  case (rescheduled k e)
  then show ?thesis
    using price_le_refl [OF assms(2), of col]
    by (auto simp: price_le_def shown_price_def)
next
  case (bid_placed veh a nb)
  have "written col (shown_price col veh) \<le> written col a"
    using assms(3) bid_placed(4) by (simp add: rounding_def)
  then have le: "shown_price col veh \<le> load col (keep col a)"
    using assms(4) bid_placed(2) by (simp add: stored_inv_def written_def)
  have "shown_price col v \<le> load col (keep col a)"
    if "v \<in> set (vehicles d)" "v_id v = v_id veh" for v
    using same_id_same_vehicle [OF assms(2) that(1) bid_placed(2) that(2)] le by simp
  then show ?thesis
    using bid_placed price_le_refl [OF assms(2), of col]
    by (auto simp: price_le_def shown_price_def)
next
  case (swept tie now)
  then show ?thesis
    using price_le_refl [OF assms(2), of col]
    by (auto simp: price_le_def shown_price_def finalize_auctions_def)
qed

subsection \<open>Runs\<close>

lemma initial_invariants:
  assumes "initial s"
  shows "keys_inv (db s)" "price_inv (db s)" "unowned_inv (db s)" "stored_inv col (db s)"
  using assms
  by (simp_all add: initial_def keys_inv_def vehicle_ids_def price_inv_def unowned_inv_def
      stored_inv_def)

lemma run_append: "run col (rs @ rs') s = run col rs' (run col rs s)"
  by (induction rs arbitrary: s) simp_all

lemma run_invariants:
  assumes "keys_inv (db s)" and "price_inv (db s)" and "unowned_inv (db s)"
  shows "keys_inv (db (run col rs s)) \<and> price_inv (db (run col rs s)) \<and>
         unowned_inv (db (run col rs s))"
  using assms
proof (induction rs arbitrary: s)
  case Nil
  then show ?case by simp
next
  case (Cons r rs)
  have step: "db_step col (db s) (db (exec col r s))" by (rule exec_db_step)
  show ?case
    using Cons.IH [OF keys_inv_step [OF step Cons.prems(1)]
        price_inv_step [OF step Cons.prems(1,2)]
        unowned_inv_step [OF step Cons.prems(3)]]
    by simp
qed

lemma run_stored_inv:
  assumes "rounding col" and "stored_inv col (db s)"
  shows "stored_inv col (db (run col rs s))"
  using assms(2)
proof (induction rs arbitrary: s)
  case Nil
  then show ?case by simp
next
  case (Cons r rs)
  show ?case
    using Cons.IH [OF stored_inv_step [OF exec_db_step assms(1) Cons.prems]] by simp
qed

text \<open>Within the lifetime of a lot the price read does not fall.\<close>

lemma alive_price_le:
  assumes "rounding col" and "keys_inv (db s)" and "stored_inv col (db s)"
    and "alive col k rs s"
    and "v \<in> set (vehicles (db s))" and "v' \<in> set (vehicles (db (run col rs s)))"
    and "v_id v = k" and "v_id v' = k"
  shows "shown_price col v \<le> shown_price col v'"
  using assms(2-)
proof (induction rs arbitrary: s v)
  case Nil
  then show ?case
    using same_id_same_vehicle [of "db s" v v'] by simp
next
  case (Cons r rs)
  have step: "db_step col (db s) (db (exec col r s))" by (rule exec_db_step)
  have keys': "keys_inv (db (exec col r s))"
    by (rule keys_inv_step [OF step Cons.prems(1)])
  have stored': "stored_inv col (db (exec col r s))"
    by (rule stored_inv_step [OF step assms(1) Cons.prems(2)])
  from Cons.prems(3) have alive': "alive col k rs (exec col r s)"
    by simp
  then have "k \<in> set (vehicle_ids (db (exec col r s)))"
    by (cases rs) simp_all
  then obtain w where w: "w \<in> set (vehicles (db (exec col r s)))" "v_id w = k"
    by (auto simp: vehicle_ids_def)
  have "shown_price col v \<le> shown_price col w"
    using price_le_step [OF step Cons.prems(1) assms(1) Cons.prems(2)] Cons.prems(4,6) w
    by (simp add: price_le_def)
  moreover have "shown_price col w \<le> shown_price col v'"
    using Cons.IH [OF keys' stored' alive' w(1) _ w(2) Cons.prems(7)] Cons.prems(5) by simp
  ultimately show ?case by simp
qed

section \<open>Bid placement\<close>

text \<open>
  C3. For a bid by a logged-in user who is no administrator, on a vehicle that exists,
  \<open>api_place_bid\<close> answers 400 "Auction has ended" when the vehicle is not active;
  otherwise 400 "Auction period has expired" when the clock has reached \<open>auction_end\<close>,
  whether or not a sweep has closed the vehicle; otherwise 400 "Bid must be greater than
  current price" when the amount is not above \<open>current_price\<close> as the handler reads it;
  otherwise it commits, and returns the new bid unless the engine refuses the key. The
  checks are made in this order.
\<close>

theorem place_bid_checks_in_order:
  assumes "get_current_user session (db s) = Some usr" and "\<not> is_admin usr"
    and "find (\<lambda>v. v_id v = bc_vehicle_id bid) (vehicles (db s)) = Some veh"
  shows "fst (api_place_bid col send session bid now db_now new_id s) =
     (if \<not> is_active veh then Inl (HTTPException 400 Auction_has_ended)
      else if auction_end veh \<le> now then Inl (HTTPException 400 Auction_period_has_expired)
      else if bc_amount bid \<le> load col (current_price veh)
        then Inl (HTTPException 400 (Bid_must_be_greater (load col (current_price veh))))
      else if new_id \<in> set (bid_ids (db s)) then Inl IntegrityError
      else Inr \<lparr>b_id = new_id, amount = load col (keep col (bc_amount bid)),
             user_id = u_id usr, vehicle_id = v_id veh, created_at = db_now\<rparr>)"
  using assms by (simp add: place_bid_unfold read_bid_def)

theorem place_bid_checks_in_order_witness:
  "get_current_user (Some 1) (db sold) = Some alice \<and> \<not> is_admin alice \<and>
   fst (api_place_bid rounds_on_write all_sent (Some 1) \<lparr>bc_amount = 900, bc_vehicle_id = 1\<rparr>
     200 200 3 sold) = Inl (HTTPException 400 Auction_has_ended) \<and>
   fst (api_place_bid rounds_on_write all_sent (Some 1) \<lparr>bc_amount = 900, bc_vehicle_id = 1\<rparr>
     100 100 3 bidden) = Inl (HTTPException 400 Auction_period_has_expired) \<and>
   fst (api_place_bid rounds_on_write all_sent (Some 1) \<lparr>bc_amount = 1500, bc_vehicle_id = 1\<rparr>
     99 99 3 bidden) = Inl (HTTPException 400 (Bid_must_be_greater 1500)) \<and>
   fst (api_place_bid rounds_on_write all_sent (Some 1) \<lparr>bc_amount = 1200, bc_vehicle_id = 1\<rparr>
     99 100 3 listed) =
     Inr \<lparr>b_id = 3, amount = 1200, user_id = 1, vehicle_id = 1, created_at = 100\<rparr>"
proof -
  have u1: "get_current_user (Some 1) (db sold) = Some alice"
    and u2: "get_current_user (Some 1) (db bidden) = Some alice"
    and u3: "get_current_user (Some 1) (db listed) = Some alice"
    and na: "\<not> is_admin alice"
    by (simp_all add: get_current_user_def sample_defs)
  have f1: "find (\<lambda>v. v_id v = bc_vehicle_id \<lparr>bc_amount = a, bc_vehicle_id = 1\<rparr>)
      (vehicles (db sold)) =
      Some (car\<lparr>current_price := 1500, is_active := False, owner_id := Some 2\<rparr>)"
    for a :: decimal
    by (simp add: sample_defs)
  have f2: "find (\<lambda>v. v_id v = bc_vehicle_id \<lparr>bc_amount = a, bc_vehicle_id = 1\<rparr>)
      (vehicles (db bidden)) = Some (car\<lparr>current_price := 1500\<rparr>)"
    for a :: decimal
    by (simp add: sample_defs)
  have f3: "find (\<lambda>v. v_id v = bc_vehicle_id \<lparr>bc_amount = a, bc_vehicle_id = 1\<rparr>)
      (vehicles (db listed)) = Some car"
    for a :: decimal
    by (simp add: sample_defs)
  show ?thesis
    using place_bid_checks_in_order [OF u1 na f1 [of 900], of rounds_on_write all_sent 200 200 3]
      place_bid_checks_in_order [OF u2 na f2 [of 900], of rounds_on_write all_sent 100 100 3]
      place_bid_checks_in_order [OF u2 na f2 [of 1500], of rounds_on_write all_sent 99 99 3]
      place_bid_checks_in_order [OF u3 na f3 [of 1200], of rounds_on_write all_sent 99 100 3]
      u1 na
    by (simp add: sample_defs bid_ids_def)
qed

text \<open>
  C8. When the session names no user of the table, \<open>api_place_bid\<close> answers 401 "Login
  required to place a bid", and when it names an administrator, 403 "Admins cannot place
  bids". It does so whatever the bid and the vehicle are, so before any check of the
  vehicle; the state, the connections and the wire are left as they were, and the
  answer is final: the handler makes one pass and has no retry.
\<close>

theorem unauthorized_bid_rejected_first:
  assumes "get_current_user session (db s) = None \<or>
           (\<exists>usr. get_current_user session (db s) = Some usr \<and> is_admin usr)"
  shows "api_place_bid col send session bid now db_now new_id s =
     (if get_current_user session (db s) = None
      then (Inl (HTTPException 401 Login_required), s)
      else (Inl (HTTPException 403 Admins_cannot_place_bids), s))"
  using assms by (auto simp: api_place_bid_def)

theorem unauthorized_bid_rejected_first_witness:
  "get_current_user None (db bidden) = None \<and>
   api_place_bid rounds_on_write all_sent None \<lparr>bc_amount = 2000, bc_vehicle_id = 1\<rparr> 90 90 3
     bidden = (Inl (HTTPException 401 Login_required), bidden) \<and>
   get_current_user (Some 3) (db bidden) = Some root \<and> is_admin root \<and>
   api_place_bid rounds_on_write all_sent (Some 3) \<lparr>bc_amount = 2000, bc_vehicle_id = 1\<rparr> 90 90 3
     bidden = (Inl (HTTPException 403 Admins_cannot_place_bids), bidden)"
proof -
  have none: "get_current_user None (db bidden) = None"
    by (simp add: get_current_user_def)
  have adm: "get_current_user (Some 3) (db bidden) = Some root" "is_admin root"
    by (simp_all add: get_current_user_def sample_defs)
  show ?thesis
    using unauthorized_bid_rejected_first
        [of None bidden rounds_on_write all_sent "\<lparr>bc_amount = 2000, bc_vehicle_id = 1\<rparr>" 90 90 3]
      unauthorized_bid_rejected_first
        [of "Some 3" bidden rounds_on_write all_sent "\<lparr>bc_amount = 2000, bc_vehicle_id = 1\<rparr>"
          90 90 3]
      none adm by simp
qed

text \<open>
  C10. Whenever \<open>api_place_bid\<close> raises, whatever the exception, it leaves the whole state
  as it was: no bid row, no change to any vehicle, no broadcast. When it returns a bid, it
  has appended exactly one row to the bids table, the row that the returned bid is read
  from, and written the amount into \<open>current_price\<close> of the vehicle bid on; every other
  vehicle and every other field is as before.
\<close>

theorem place_bid_atomic:
  "(\<forall>e. fst (api_place_bid col send session bid now db_now new_id s) = Inl e \<longrightarrow>
       snd (api_place_bid col send session bid now db_now new_id s) = s) \<and>
   (\<forall>b. fst (api_place_bid col send session bid now db_now new_id s) = Inr b \<longrightarrow>
       bids (db (snd (api_place_bid col send session bid now db_now new_id s))) =
         bids (db s) @ [b\<lparr>amount := keep col (bc_amount bid)\<rparr>] \<and>
       b = read_bid col (b\<lparr>amount := keep col (bc_amount bid)\<rparr>) \<and>
       vehicles (db (snd (api_place_bid col send session bid now db_now new_id s))) =
         map (\<lambda>v. if v_id v = bc_vehicle_id bid
                  then v\<lparr>current_price := keep col (bc_amount bid)\<rparr> else v)
           (vehicles (db s)) \<and>
       users (db (snd (api_place_bid col send session bid now db_now new_id s))) =
         users (db s) \<and>
       amount b = load col (keep col (bc_amount bid)) \<and> vehicle_id b = bc_vehicle_id bid)"
  by (auto simp: place_bid_unfold read_bid_def split: option.splits dest: find_SomeD)

theorem place_bid_atomic_witness:
  "fst (api_place_bid rounds_on_write all_sent (Some 1) \<lparr>bc_amount = 900, bc_vehicle_id = 1\<rparr>
     90 90 1 listed) = Inl (HTTPException 400 (Bid_must_be_greater 1000)) \<and>
   snd (api_place_bid rounds_on_write all_sent (Some 1) \<lparr>bc_amount = 900, bc_vehicle_id = 1\<rparr>
     90 90 1 listed) = listed \<and>
   fst (api_place_bid rounds_on_write all_sent (Some 1) \<lparr>bc_amount = 1200, bc_vehicle_id = 1\<rparr>
     80 90 1 listed) = Inr bid_a \<and>
   bids (db (snd (api_place_bid rounds_on_write all_sent (Some 1)
     \<lparr>bc_amount = 1200, bc_vehicle_id = 1\<rparr> 80 90 1 listed))) = [bid_a] \<and>
   vehicles (db (snd (api_place_bid rounds_on_write all_sent (Some 1)
     \<lparr>bc_amount = 1200, bc_vehicle_id = 1\<rparr> 80 90 1 listed))) = [car\<lparr>current_price := 1200\<rparr>]"
proof -
  have rej: "fst (api_place_bid rounds_on_write all_sent (Some 1)
      \<lparr>bc_amount = 900, bc_vehicle_id = 1\<rparr> 90 90 1 listed) =
      Inl (HTTPException 400 (Bid_must_be_greater 1000))"
    by (simp add: eval_defs sample_defs)
  have acc: "fst (api_place_bid rounds_on_write all_sent (Some 1)
      \<lparr>bc_amount = 1200, bc_vehicle_id = 1\<rparr> 80 90 1 listed) = Inr bid_a"
    by (simp add: eval_defs sample_defs)
  have l: "bids (db listed) = []" "vehicles (db listed) = [car]" "v_id car = 1"
    by (simp_all add: sample_defs)
  show ?thesis
    using place_bid_atomic
        [of rounds_on_write all_sent "Some 1" "\<lparr>bc_amount = 900, bc_vehicle_id = 1\<rparr>" 90 90 1 listed]
      place_bid_atomic
        [of rounds_on_write all_sent "Some 1" "\<lparr>bc_amount = 1200, bc_vehicle_id = 1\<rparr>" 80 90 1
          listed]
      rej acc l by simp
qed

section \<open>Broadcast and bid history\<close>

text \<open>
  C7. \<open>broadcast\<close> hands the message to \<open>send_json\<close> once for every handle of \<open>active\<close>, in
  order; the handles left in \<open>active\<close> by the same call are exactly those whose send
  returned, so every handle whose send raised is removed. The raise never reaches the
  handler that broadcasts: the response and the database of \<open>api_place_bid\<close>,
  \<open>admin_add_vehicle\<close> and \<open>admin_delete_vehicle\<close> are those of a run in which every send
  returns. (A send is taken to raise an \<open>Exception\<close>, which is all that \<open>broadcast\<close> catches,
  and \<open>active\<close> is taken not to change during the loop.)
\<close>

theorem broadcast_prunes_failed_handles:
  "snd (broadcast send msg m) = map (\<lambda>ws. (ws, msg)) (active m) \<and>
   active (fst (broadcast send msg m)) = filter (\<lambda>ws. send ws msg) (active m) \<and>
   fst (api_place_bid col send session bid now db_now new_id s) =
     fst (api_place_bid col all_sent session bid now db_now new_id s) \<and>
   db (snd (api_place_bid col send session bid now db_now new_id s)) =
     db (snd (api_place_bid col all_sent session bid now db_now new_id s)) \<and>
   fst (admin_add_vehicle col send session ttl descr price end_dt img new_id s) =
     fst (admin_add_vehicle col all_sent session ttl descr price end_dt img new_id s) \<and>
   db (snd (admin_add_vehicle col send session ttl descr price end_dt img new_id s)) =
     db (snd (admin_add_vehicle col all_sent session ttl descr price end_dt img new_id s)) \<and>
   fst (admin_delete_vehicle send session vid s) =
     fst (admin_delete_vehicle all_sent session vid s) \<and>
   db (snd (admin_delete_vehicle send session vid s)) =
     db (snd (admin_delete_vehicle all_sent session vid s))"
  by (simp add: place_bid_unfold admin_add_vehicle_def admin_delete_vehicle_def
      split: option.splits)

text \<open>
  C9. \<open>api_get_bids\<close> returns exactly the bids whose \<open>vehicle_id\<close> is the vehicle asked
  for, each as often as the table holds it and as Python reads it, ordered by descending
  \<open>created_at\<close>, whatever order the engine gives to bids of equal \<open>created_at\<close>.
\<close>

theorem bid_history_filtered_and_ordered:
  "mset (api_get_bids col tie vid d) =
     image_mset (read_bid col) (filter_mset (\<lambda>b. vehicle_id b = vid) (mset (bids d))) \<and>
   sorted_wrt (\<lambda>a b. created_at b \<le> created_at a) (api_get_bids col tie vid d)"
proof -
  have "sorted_wrt (\<lambda>a b. created_at b \<le> created_at a)
      (map (read_bid col) (order_by_desc created_at tie (filter (\<lambda>b. vehicle_id b = vid) (bids d))))"
    using sorted_order_by_desc [of created_at tie "filter (\<lambda>b. vehicle_id b = vid) (bids d)"]
    by (simp add: sorted_wrt_map read_bid_def)
  then show ?thesis
    by (simp add: api_get_bids_def mset_order_by_desc)
qed

section \<open>The finalization sweep\<close>

text \<open>
  C6. \<open>finalize_auctions\<close> changes no bid, and a vehicle that is not active is the same
  row after the sweep as before it: \<open>is_active\<close>, \<open>owner_id\<close>, \<open>current_price\<close> and every
  other column. A second sweep, at the same or an earlier clock reading, changes nothing
  at all.
\<close>

theorem sweep_leaves_closed_lots:
  "bids (finalize_auctions tie now d) = bids d \<and>
   length (vehicles (finalize_auctions tie now d)) = length (vehicles d) \<and>
   (\<forall>i < length (vehicles d). \<not> is_active (vehicles d ! i) \<longrightarrow>
       vehicles (finalize_auctions tie now d) ! i = vehicles d ! i) \<and>
   (now' \<le> now \<longrightarrow>
       finalize_auctions tie' now' (finalize_auctions tie now d) = finalize_auctions tie now d)"
  by (simp add: finalize_auctions_nth expired_def sweep_twice)

theorem sweep_leaves_closed_lots_witness:
  "\<not> is_active (vehicles (db sold) ! 0) \<and>
   vehicles (finalize_auctions earliest_first 500 (db sold)) ! 0 = vehicles (db sold) ! 0 \<and>
   bids (finalize_auctions earliest_first 500 (db sold)) = bids (db sold) \<and>
   finalize_auctions latest_first 101 (finalize_auctions earliest_first 101 (db bidden)) =
     finalize_auctions earliest_first 101 (db bidden) \<and>
   finalize_auctions earliest_first 101 (db bidden) = db sold"
proof -
  have c: "\<not> is_active (vehicles (db sold) ! 0)" "0 < length (vehicles (db sold))"
    by (simp_all add: sample_defs)
  show ?thesis
    using sweep_leaves_closed_lots [of earliest_first 500 "db sold" 500 earliest_first]
      sweep_leaves_closed_lots [of earliest_first 101 "db bidden" 101 latest_first] c
      sweep_sample
    by simp
qed

section \<open>Closing expired lots\<close>

text \<open>
  C4. For every database, \<open>finalize_auctions\<close> at clock reading \<open>now\<close> treats the vehicle of
  each row as follows. If it is active and its \<open>auction_end\<close> is at most \<open>now\<close>, it becomes
  inactive; with no bid for it, nothing else changes: \<open>owner_id\<close> is left as it was, so a
  null owner stays null; with a bid for it, \<open>owner_id\<close> becomes the \<open>user_id\<close> of a bid for it
  of the greatest amount, and nothing else changes. Every other vehicle, whether its
  deadline has not passed or it is closed already, is left as it is, and so are the bids.
\<close>

theorem sweep_closes_expired_lots:
  assumes "i < length (vehicles d)"
    and "v = vehicles d ! i" and "v' = vehicles (finalize_auctions tie now d) ! i"
  shows "(is_active v \<and> auction_end v \<le> now \<longrightarrow>
            \<not> is_active v' \<and>
            (lot_bids d (v_id v) = [] \<longrightarrow>
               v' = v\<lparr>is_active := False\<rparr> \<and> owner_id v' = owner_id v \<and>
               (owner_id v = None \<longrightarrow> owner_id v' = None)) \<and>
            (lot_bids d (v_id v) \<noteq> [] \<longrightarrow>
               (\<exists>b \<in> set (lot_bids d (v_id v)).
                  (\<forall>c \<in> set (lot_bids d (v_id v)). amount c \<le> amount b) \<and>
                  v' = v\<lparr>is_active := False, owner_id := Some (user_id b)\<rparr>))) \<and>
         (\<not> (is_active v \<and> auction_end v \<le> now) \<longrightarrow> v' = v) \<and>
         length (vehicles (finalize_auctions tie now d)) = length (vehicles d) \<and>
         bids (finalize_auctions tie now d) = bids d"
proof -
  have v': "v' = (if expired now v then finalize_vehicle tie (bids d) v else v)"
    using assms by (simp add: finalize_auctions_nth)
  show ?thesis
  proof (cases "top_bid_of tie (bids d) (v_id v)")
    case None
    then have "lot_bids d (v_id v) = []"
      by (simp add: top_bid_of_None lot_bids_def)
    with None v' show ?thesis
      by (simp add: expired_def finalize_vehicle_def)
  next
    case (Some b)
    from top_bid_of_Some [OF Some]
    have "b \<in> set (lot_bids d (v_id v))" "\<forall>c \<in> set (lot_bids d (v_id v)). amount c \<le> amount b"
      by (simp_all add: lot_bids_def)
    moreover from this have "lot_bids d (v_id v) \<noteq> []" by auto
    ultimately show ?thesis
      using Some v' by (auto simp: expired_def finalize_vehicle_def)
  qed
qed

theorem sweep_closes_expired_lots_witness:
  "is_active (vehicles uneven ! 0) \<and> auction_end (vehicles uneven ! 0) \<le> 101 \<and>
   lot_bids uneven (v_id (vehicles uneven ! 0)) = [bid_e, bid_b] \<and>
   amount bid_b < amount bid_e \<and>
   vehicles (finalize_auctions latest_first 101 uneven) ! 0 =
     (vehicles uneven ! 0)\<lparr>is_active := False, owner_id := Some (user_id bid_e)\<rparr> \<and>
   is_active (vehicles (db listed) ! 0) \<and> auction_end (vehicles (db listed) ! 0) \<le> 101 \<and>
   lot_bids (db listed) (v_id (vehicles (db listed) ! 0)) = [] \<and>
   owner_id (vehicles (db listed) ! 0) = None \<and>
   vehicles (finalize_auctions earliest_first 101 (db listed)) ! 0 =
     (vehicles (db listed) ! 0)\<lparr>is_active := False\<rparr> \<and>
   owner_id (vehicles (finalize_auctions earliest_first 101 (db listed)) ! 0) = None \<and>
   \<not> (is_active (vehicles uneven ! 0) \<and> auction_end (vehicles uneven ! 0) \<le> 99) \<and>
   vehicles (finalize_auctions earliest_first 99 uneven) ! 0 = vehicles uneven ! 0"
proof -
  have n: "0 < length (vehicles uneven)" "0 < length (vehicles (db listed))"
    by (simp_all add: sample_defs)
  have f: "is_active (vehicles uneven ! 0)" "auction_end (vehicles uneven ! 0) \<le> 101"
    "lot_bids uneven (v_id (vehicles uneven ! 0)) = [bid_e, bid_b]"
    "amount bid_b < amount bid_e"
    "is_active (vehicles (db listed) ! 0)" "auction_end (vehicles (db listed) ! 0) \<le> 101"
    "lot_bids (db listed) (v_id (vehicles (db listed) ! 0)) = []"
    "owner_id (vehicles (db listed) ! 0) = None"
    "\<not> (is_active (vehicles uneven ! 0) \<and> auction_end (vehicles uneven ! 0) \<le> 99)"
    by (simp_all add: lot_bids_def sample_defs)
  have "\<exists>b \<in> set [bid_e, bid_b]. (\<forall>c \<in> set [bid_e, bid_b]. amount c \<le> amount b) \<and>
      vehicles (finalize_auctions latest_first 101 uneven) ! 0 =
        (vehicles uneven ! 0)\<lparr>is_active := False, owner_id := Some (user_id b)\<rparr>"
    using sweep_closes_expired_lots [OF n(1) refl refl, where tie = latest_first and now = 101]
      f(1,2,3) by auto
  then have c1: "vehicles (finalize_auctions latest_first 101 uneven) ! 0 =
      (vehicles uneven ! 0)\<lparr>is_active := False, owner_id := Some (user_id bid_e)\<rparr>"
    using f(4) by auto
  have c2: "vehicles (finalize_auctions earliest_first 101 (db listed)) ! 0 =
      (vehicles (db listed) ! 0)\<lparr>is_active := False\<rparr>"
    "owner_id (vehicles (finalize_auctions earliest_first 101 (db listed)) ! 0) = None"
    using sweep_closes_expired_lots [OF n(2) refl refl, where tie = earliest_first and now = 101]
      f(5,6,7,8) by blast+
  have c3: "vehicles (finalize_auctions earliest_first 99 uneven) ! 0 = vehicles uneven ! 0"
    using sweep_closes_expired_lots [OF n(1) refl refl, where tie = earliest_first and now = 99]
      f(9) by blast
  show ?thesis
    using f c1 c2 c3 by blast
qed

text \<open>
  In every state that a fresh installation reaches, a vehicle that is still active has
  no owner: it is the sweep that gives a lot its first owner.
\<close>

lemma open_lots_unowned:
  assumes "initial s0" and "v \<in> set (vehicles (db (run col rs s0)))" and "is_active v"
  shows "owner_id v = None"
  using run_invariants [OF initial_invariants(1,2,3) [OF assms(1)], of col rs] assms(2,3)
  by (simp add: unowned_inv_def)




text \<open>
  With another order of the rows the table \<open>tied\<close> is swept to the later bidder: the code
  relies on the engine for the order among equal amounts.
\<close>

lemma row_order_decides_ties:
  "top_bid_of latest_first (bids (db tied)) 1 = Some bid_d"
  by (simp add: eval_defs highest_def sample_defs)

section \<open>The price of a lot\<close>

text \<open>
  C2. In every state that a fresh installation reaches by any sequence of requests
  (registrations, additions, deletions and reschedulings of vehicles, bids, sweeps),
  whatever keys the engine gives to new rows and whatever the price columns keep of the
  values written to them, the \<open>current_price\<close> of every vehicle is the amount of the bid
  accepted last for it, or its \<open>starting_price\<close> when it has no bid. While a lot lives,
  from any point of a run to any later point with the lot in the table throughout, its
  \<open>current_price\<close> as it is read does not fall, provided that writing a value and reading
  it back keeps the order of values and returns a value that was read as it was, as
  rounding to two places does. \<open>admin_add_vehicle\<close> creates the vehicle with
  \<open>current_price = starting_price\<close>.
\<close>

theorem current_price_is_latest_bid_and_rises:
  assumes "initial s0"
  shows "(\<forall>v \<in> set (vehicles (db (run col rs s0))).
            current_price v = latest_price (db (run col rs s0)) v) \<and>
         (rounding col \<and> alive col k rs' (run col rs s0) \<longrightarrow>
            (\<forall>v \<in> set (vehicles (db (run col rs s0))).
             \<forall>v' \<in> set (vehicles (db (run col (rs @ rs') s0))).
               v_id v = k \<and> v_id v' = k \<longrightarrow> shown_price col v \<le> shown_price col v')) \<and>
         (fst (admin_add_vehicle col send session ttl descr price end_dt img new_id s) = Inr ()
            \<longrightarrow>
            (\<exists>nv. vehicles (db (snd (admin_add_vehicle col send session ttl descr price end_dt
                      img new_id s))) = vehicles (db s) @ [nv] \<and>
                   starting_price nv = keep col price \<and> current_price nv = keep col price))"
proof (intro conjI impI ballI)
  note inv0 = initial_invariants [OF assms]
  note inv = run_invariants [OF inv0(1,2,3), of col rs]
  show "current_price v = latest_price (db (run col rs s0)) v"
    if "v \<in> set (vehicles (db (run col rs s0)))" for v
    using inv that by (simp add: price_inv_def)
  show "shown_price col v \<le> shown_price col v'"
    if "rounding col \<and> alive col k rs' (run col rs s0)"
      and "v \<in> set (vehicles (db (run col rs s0)))"
      and "v' \<in> set (vehicles (db (run col (rs @ rs') s0)))"
      and "v_id v = k \<and> v_id v' = k" for v v'
  proof -
    have stored: "stored_inv col (db (run col rs s0))"
      using that(1) by (intro run_stored_inv inv0(4)) simp
    show ?thesis
      using alive_price_le [of col "run col rs s0" k rs' v v'] that inv stored
      by (simp add: run_append)
  qed
  show "\<exists>nv. vehicles (db (snd (admin_add_vehicle col send session ttl descr price end_dt
                      img new_id s))) = vehicles (db s) @ [nv] \<and>
                   starting_price nv = keep col price \<and> current_price nv = keep col price"
    if "fst (admin_add_vehicle col send session ttl descr price end_dt img new_id s) = Inr ()"
    using that
    by (auto simp: admin_add_vehicle_def broadcast_eq Let_def split: option.splits if_splits)
qed

theorem current_price_is_latest_bid_and_rises_witness:
  "initial fresh \<and> rounding rounds_on_write \<and> rounding rounds_on_read \<and>
   run rounds_on_write [add_car] fresh = listed \<and>
   run rounds_on_write ([add_car] @ tl history) fresh = bidden \<and>
   run rounds_on_read ([add_car] @ close_bids) fresh = shaded \<and>
   alive rounds_on_write 1 (tl history) listed \<and> alive rounds_on_read 1 close_bids listed \<and>
   car \<in> set (vehicles (db listed)) \<and>
   car\<lparr>current_price := 1500\<rparr> \<in> set (vehicles (db bidden)) \<and>
   car\<lparr>current_price := 500001 / 500\<rparr> \<in> set (vehicles (db shaded)) \<and>
   current_price car = latest_price (db listed) car \<and>
   500001 / 500 = latest_price (db shaded) (car\<lparr>current_price := 500001 / 500\<rparr>) \<and>
   shown_price rounds_on_write car \<le> shown_price rounds_on_write (car\<lparr>current_price := 1500\<rparr>) \<and>
   shown_price rounds_on_read car \<le>
     shown_price rounds_on_read (car\<lparr>current_price := 500001 / 500\<rparr>) \<and>
   fst (admin_add_vehicle rounds_on_write all_sent (Some 3) ''car'' [] 1000 (Some 100) None 1
     fresh) = Inr () \<and>
   (\<exists>nv. vehicles (db (snd (admin_add_vehicle rounds_on_write all_sent (Some 3) ''car'' [] 1000
             (Some 100) None 1 fresh))) = vehicles (db fresh) @ [nv] \<and>
         starting_price nv = keep rounds_on_write 1000 \<and>
         current_price nv = keep rounds_on_write 1000)"
proof -
  have i: "initial fresh" by (simp add: initial_def fresh_def)
  have a: "fst (admin_add_vehicle rounds_on_write all_sent (Some 3) ''car'' [] 1000 (Some 100)
      None 1 fresh) = Inr ()"
    by (simp add: eval_defs sample_defs)
  have h: "run rounds_on_write ([add_car] @ tl history) fresh = bidden"
    using run_history by (simp add: history_def)
  have c: "run rounds_on_read ([add_car] @ close_bids) fresh = shaded"
    using run_listed_read run_close_bids_read by (simp add: run_append)
  have al: "alive rounds_on_write 1 (tl history) listed"
    "alive rounds_on_read 1 close_bids listed"
    by (simp_all add: eval_defs sample_defs)
  have m: "car \<in> set (vehicles (db listed))"
    "car\<lparr>current_price := 1500\<rparr> \<in> set (vehicles (db bidden))"
    "car\<lparr>current_price := 500001 / 500\<rparr> \<in> set (vehicles (db shaded))"
    "v_id car = 1" "v_id (car\<lparr>current_price := 1500\<rparr>) = 1"
    "v_id (car\<lparr>current_price := 500001 / 500\<rparr>) = 1"
    "current_price (car\<lparr>current_price := 500001 / 500\<rparr>) = 500001 / 500"
    by (simp_all add: sample_defs)
  note t1 = current_price_is_latest_bid_and_rises [OF i, of rounds_on_write "[add_car]" 1
      "tl history" all_sent "Some 3" "''car''" "[]" 1000 "Some 100" None 1 fresh,
      unfolded run_listed h]
  note t2 = current_price_is_latest_bid_and_rises [OF i, of rounds_on_read
      "[add_car] @ close_bids" 1 "[]" all_sent "Some 3" "''car''" "[]" 1000 "Some 100" None 1
      fresh, unfolded c]
  note t3 = current_price_is_latest_bid_and_rises [OF i, of rounds_on_read "[add_car]" 1
      close_bids all_sent "Some 3" "''car''" "[]" 1000 "Some 100" None 1 fresh,
      unfolded run_listed_read c]
  have p1: "current_price car = latest_price (db listed) car"
    using t1 m(1) by blast
  have p2: "500001 / 500 = latest_price (db shaded) (car\<lparr>current_price := 500001 / 500\<rparr>)"
    using t2 m(3) m(7) by metis
  have p3: "shown_price rounds_on_write car \<le>
      shown_price rounds_on_write (car\<lparr>current_price := 1500\<rparr>)"
    using t1 rounding_rounds_on_write al(1) m by blast
  have p4: "shown_price rounds_on_read car \<le>
      shown_price rounds_on_read (car\<lparr>current_price := 500001 / 500\<rparr>)"
    using t3 rounding_rounds_on_read al(2) m by blast
  have p5: "\<exists>nv. vehicles (db (snd (admin_add_vehicle rounds_on_write all_sent (Some 3) ''car''
      [] 1000 (Some 100) None 1 fresh))) = vehicles (db fresh) @ [nv] \<and>
      starting_price nv = keep rounds_on_write 1000 \<and>
      current_price nv = keep rounds_on_write 1000"
    using t1 a by blast
  show ?thesis
    using i rounding_rounds_on_write rounding_rounds_on_read run_listed h c al m(1,2,3)
      p1 p2 p3 p4 a p5
    by blast
qed

end
